theory Spec2Isabelle
  imports Complex_Main "HOL-Library.Sublist"
begin

section \<open>Text helpers of the Python runtime\<close>

text \<open>
  Text is modelled as HOL strings. A character is a Unicode code point below 256, read by
  \<open>of_char\<close>; text with code points from 256 on is outside the model.
\<close>

text \<open>\<open>str.isspace\<close> on one character, which is also the class \<open>\s\<close> of the patterns:
  tab to carriage return, the four separators 28 to 31, the blank, and the two white-space
  characters above 127, next line (133) and no-break space (160).\<close>

definition isspace :: "char \<Rightarrow> bool" where
  "isspace c = (let n = (of_char c :: nat) in
     (9 \<le> n \<and> n \<le> 13) \<or> (28 \<le> n \<and> n \<le> 32) \<or> n = 133 \<or> n = 160)"

text \<open>The character ranges \<open>0-9\<close>, \<open>A-Z\<close> and \<open>a-z\<close> of the patterns.\<close>

definition isdigit :: "char \<Rightarrow> bool" where
  "isdigit c = (let n = (of_char c :: nat) in 48 \<le> n \<and> n \<le> 57)"

definition isupper :: "char \<Rightarrow> bool" where
  "isupper c = (let n = (of_char c :: nat) in 65 \<le> n \<and> n \<le> 90)"

definition islower :: "char \<Rightarrow> bool" where
  "islower c = (let n = (of_char c :: nat) in 97 \<le> n \<and> n \<le> 122)"

definition isalpha :: "char \<Rightarrow> bool" where
  "isalpha c = (isupper c \<or> islower c)"

text \<open>Case mapping of the letters \<open>a-z\<close> and \<open>A-Z\<close>; every other character is left as
  it is. This is \<open>str.upper\<close> and \<open>str.lower\<close> on ASCII text only, and the statements
  about upper-cased text are made for ASCII text.\<close>

definition to_upper :: "char \<Rightarrow> char" where
  "to_upper c = (if islower c then char_of ((of_char c :: nat) - 32) else c)"

definition to_lower :: "char \<Rightarrow> char" where
  "to_lower c = (if isupper c then char_of ((of_char c :: nat) + 32) else c)"


text \<open>\<open>s.strip(chars)\<close>: drop the characters of a class from both ends.\<close>

definition strip_chars :: "(char \<Rightarrow> bool) \<Rightarrow> string \<Rightarrow> string" where
  "strip_chars P s = rev (dropWhile P (rev (dropWhile P s)))"

definition py_strip :: "string \<Rightarrow> string" where
  "py_strip s = strip_chars isspace s"

text \<open>\<open>sub in s\<close> and \<open>s.startswith(p)\<close>.\<close>

fun startswith :: "string \<Rightarrow> string \<Rightarrow> bool" where
  "startswith s [] = True"
| "startswith [] (p # ps) = False"
| "startswith (c # cs) (p # ps) = (c = p \<and> startswith cs ps)"

fun contains :: "string \<Rightarrow> string \<Rightarrow> bool" where
  "contains sub [] = (sub = [])"
| "contains sub (c # cs) = (startswith (c # cs) sub \<or> contains sub cs)"

section \<open>Worker-name sanitization\<close>

text \<open>\<open>WORKER_RE = [A-Za-z0-9_\-\.]{1,64}\<close>, used with \<open>re.fullmatch\<close>: every
  character is in the class and the length is between 1 and 64.\<close>

definition worker_char :: "char \<Rightarrow> bool" where
  "worker_char c = (isalpha c \<or> isdigit c \<or> c = CHR ''_'' \<or> c = CHR ''-'' \<or> c = CHR ''.'')"







section \<open>Worker liveness table\<close>

text \<open>A row of \<open>workers_seen\<close>; the primary key is the pair (wallet, worker). Times are
  epoch seconds, as unbounded integers.\<close>

record worker_seen =
  ws_wallet :: string
  ws_worker :: string
  last_seen :: int
  active :: int

text \<open>\<open>UPDATE workers_seen SET active=0 WHERE active=1 AND (? - last_seen) > ?\<close>\<close>

definition expire_row :: "int \<Rightarrow> int \<Rightarrow> worker_seen \<Rightarrow> worker_seen" where
  "expire_row now_ts timeout_s r =
     (if active r = 1 \<and> now_ts - last_seen r > timeout_s then r\<lparr>active := 0\<rparr> else r)"

definition expire_stale_workers :: "int \<Rightarrow> int \<Rightarrow> worker_seen list \<Rightarrow> worker_seen list" where
  "expire_stale_workers now_ts timeout_s tbl = map (expire_row now_ts timeout_s) tbl"

section \<open>Hashrate values and their text\<close>

text \<open>A Python \<open>float\<close>: a finite value, an infinity or not-a-number. Finite values
  are exact rationals here; the rounding of binary floating point and the overflow to
  infinity of very large literals are not modelled.\<close>

datatype pyfloat = Fin rat | PInf | NInf | NaN

fun fl_add :: "pyfloat \<Rightarrow> pyfloat \<Rightarrow> pyfloat" where
  "fl_add (Fin a) (Fin b) = Fin (a + b)"
| "fl_add NaN y = NaN"
| "fl_add x NaN = NaN"
| "fl_add PInf NInf = NaN"
| "fl_add NInf PInf = NaN"
| "fl_add PInf y = PInf"
| "fl_add NInf y = NInf"
| "fl_add (Fin a) y = y"

text \<open>Decimal digits, and the decimal numeral of a natural number.\<close>

definition digit_of :: "char \<Rightarrow> nat" where
  "digit_of c = (of_char c :: nat) - 48"

definition digit_char :: "nat \<Rightarrow> char" where
  "digit_char d = ''0123456789'' ! d"

fun show_nat :: "nat \<Rightarrow> string" where
  "show_nat n = (if n < 10 then [digit_char n] else show_nat (n div 10) @ [digit_char (n mod 10)])"

declare show_nat.simps [simp del]

definition digits_value :: "string \<Rightarrow> nat" where
  "digits_value ds = foldl (\<lambda>a c. 10 * a + digit_of c) 0 (filter isdigit ds)"

text \<open>The format specifications \<open>:.2f\<close> and \<open>:.0f\<close> round the exact value to the
  nearest multiple of the last printed place, ties to the even neighbour.\<close>

definition round_half_even :: "rat \<Rightarrow> int" where
  "round_half_even r =
     (let f = \<lfloor>r\<rfloor>; d = r - of_int f in
      if d < 1 / 2 then f else if 1 / 2 < d then f + 1 else if even f then f else f + 1)"

definition pad_zeros :: "nat \<Rightarrow> string \<Rightarrow> string" where
  "pad_zeros d s = replicate (d - length s) CHR ''0'' @ s"

definition format_fixed :: "nat \<Rightarrow> pyfloat \<Rightarrow> string" where
  "format_fixed d x =
     (case x of
        NaN \<Rightarrow> ''nan''
      | PInf \<Rightarrow> ''inf''
      | NInf \<Rightarrow> ''-inf''
      | Fin q \<Rightarrow>
          (let n = nat (round_half_even (\<bar>q\<bar> * 10 ^ d));
               body = show_nat (n div 10 ^ d) @
                      (if d = 0 then [] else CHR ''.'' # pad_zeros d (show_nat (n mod 10 ^ d)))
           in (if q < 0 then ''-'' else []) @ body))"

text \<open>\<open>float(s)\<close> on a string. A digit part is a run of digits in which single
  underscores may separate digits; a number is a digit part with an optional point and
  fraction (one of the two sides may be missing), then an optional exponent; the words
  \<open>inf\<close>, \<open>infinity\<close> and \<open>nan\<close> are accepted in any case, all of them with an
  optional sign. White space around the text is ignored; here the separators 28 to 31 do
  not count as white space. \<open>None\<close> stands for \<open>ValueError\<close>.\<close>

definition digitpart :: "string \<Rightarrow> bool" where
  "digitpart ds = (ds \<noteq> [] \<and> isdigit (hd ds) \<and> isdigit (last ds)
      \<and> list_all (\<lambda>c. isdigit c \<or> c = CHR ''_'') ds \<and> \<not> contains ''__'' ds)"

definition is_exp_char :: "char \<Rightarrow> bool" where
  "is_exp_char c = (c = CHR ''e'' \<or> c = CHR ''E'')"

definition strip_sign :: "string \<Rightarrow> bool \<times> string" where
  "strip_sign s = (case s of [] \<Rightarrow> (False, [])
      | c # cs \<Rightarrow> if c = CHR ''-'' then (True, cs) else if c = CHR ''+'' then (False, cs) else (False, s))"

definition mantissa_value :: "string \<Rightarrow> rat option" where
  "mantissa_value m =
     (let ip = takeWhile (\<lambda>c. c \<noteq> CHR ''.'') m; r = dropWhile (\<lambda>c. c \<noteq> CHR ''.'') m in
      case r of
        [] \<Rightarrow> if digitpart ip then Some (of_nat (digits_value ip)) else None
      | _ # fp \<Rightarrow>
          if (ip = [] \<or> digitpart ip) \<and> (fp = [] \<or> digitpart fp) \<and> \<not> (ip = [] \<and> fp = [])
          then Some (of_nat (digits_value ip)
                     + of_nat (digits_value fp) / 10 ^ length (filter isdigit fp))
          else None)"

definition exponent_value :: "string \<Rightarrow> int option" where
  "exponent_value e =
     (let (neg, ds) = strip_sign e in
      if digitpart ds then Some (if neg then - int (digits_value ds) else int (digits_value ds))
      else None)"

definition pow10 :: "int \<Rightarrow> rat" where
  "pow10 e = (if 0 \<le> e then 10 ^ nat e else 1 / 10 ^ nat (- e))"

definition floatnumber :: "string \<Rightarrow> rat option" where
  "floatnumber s =
     (let m = takeWhile (\<lambda>c. \<not> is_exp_char c) s; r = dropWhile (\<lambda>c. \<not> is_exp_char c) s in
      case mantissa_value m of
        None \<Rightarrow> None
      | Some v \<Rightarrow>
          (case r of
             [] \<Rightarrow> Some v
           | _ # e \<Rightarrow> (case exponent_value e of None \<Rightarrow> None | Some x \<Rightarrow> Some (v * pow10 x))))"

definition float_space :: "char \<Rightarrow> bool" where
  "float_space c = (let n = (of_char c :: nat) in
     (9 \<le> n \<and> n \<le> 13) \<or> n = 32 \<or> n = 133 \<or> n = 160)"

definition py_float :: "string \<Rightarrow> pyfloat option" where
  "py_float s0 =
     (let (neg, s) = strip_sign (strip_chars float_space s0); u = map to_upper s in
      if u = ''INF'' \<or> u = ''INFINITY'' then Some (if neg then NInf else PInf)
      else if u = ''NAN'' then Some NaN
      else (case floatnumber s of
              None \<Rightarrow> None
            | Some v \<Rightarrow> Some (Fin (if neg then - v else v))))"

text \<open>The values found in a database cell or handed to the hashrate parser: \<open>None\<close>, a
  number, or text. The text made of one em dash (the code point 8212, outside the character
  range of the model), which the program uses as the placeholder for an unknown value, has
  a constructor of its own.\<close>

datatype pyval = PNone | PInt int | PFloat pyfloat | PStr string | PDash

text \<open>Arithmetic and comparison on floats, with the IEEE rules for the special
  values.\<close>

definition fl_sgn :: "pyfloat \<Rightarrow> int" where
  "fl_sgn x = (case x of Fin a \<Rightarrow> (if 0 < a then 1 else if a < 0 then - 1 else 0)
      | PInf \<Rightarrow> 1 | NInf \<Rightarrow> - 1 | NaN \<Rightarrow> 0)"

fun fl_mul :: "pyfloat \<Rightarrow> pyfloat \<Rightarrow> pyfloat" where
  "fl_mul (Fin a) (Fin b) = Fin (a * b)"
| "fl_mul NaN y = NaN"
| "fl_mul x NaN = NaN"
| "fl_mul x y = (if fl_sgn x * fl_sgn y = 0 then NaN else if 0 < fl_sgn x * fl_sgn y then PInf else NInf)"

definition fl_div :: "pyfloat \<Rightarrow> rat \<Rightarrow> pyfloat" where
  "fl_div x m = (case x of Fin a \<Rightarrow> Fin (a / m) | _ \<Rightarrow> x)"

definition fl_ge :: "pyfloat \<Rightarrow> rat \<Rightarrow> bool" where
  "fl_ge x m = (case x of Fin a \<Rightarrow> m \<le> a | PInf \<Rightarrow> True | _ \<Rightarrow> False)"

definition fl_gt :: "pyfloat \<Rightarrow> rat \<Rightarrow> bool" where
  "fl_gt x m = (case x of Fin a \<Rightarrow> m < a | PInf \<Rightarrow> True | _ \<Rightarrow> False)"

text \<open>\<open>UNIT_MAP\<close> as an association list, and \<open>d.get(k, default)\<close>.\<close>

definition UNIT_MAP :: "(string \<times> rat) list" where
  "UNIT_MAP = [([], 1), (''H'', 1), (''K'', 10 ^ 3), (''KH'', 10 ^ 3), (''M'', 10 ^ 6), (''MH'', 10 ^ 6),
     (''G'', 10 ^ 9), (''GH'', 10 ^ 9), (''T'', 10 ^ 12), (''TH'', 10 ^ 12), (''P'', 10 ^ 15),
     (''PH'', 10 ^ 15), (''E'', 10 ^ 18), (''EH'', 10 ^ 18)]"

definition dict_get :: "('k \<times> 'v) list \<Rightarrow> 'k \<Rightarrow> 'v \<Rightarrow> 'v" where
  "dict_get d k dflt = (case map_of d k of None \<Rightarrow> dflt | Some v \<Rightarrow> v)"

text \<open>\<open>re.match(r"([0-9]*\.?[0-9]+)([A-Z]{0,2})$", s)\<close>: the first group is the
  longest prefix of digits and points, which has to be digits, or digits (possibly none),
  a point and at least one digit; the rest is at most two capital letters. The text
  matched against has no white space at its end, so \<open>$\<close> is the end of the text.\<close>

definition is_number :: "string \<Rightarrow> bool" where
  "is_number g =
     (let ip = takeWhile isdigit g; r = dropWhile isdigit g in
      case r of
        [] \<Rightarrow> ip \<noteq> []
      | c # fp \<Rightarrow> c = CHR ''.'' \<and> fp \<noteq> [] \<and> list_all isdigit fp)"

definition hashrate_match :: "string \<Rightarrow> (string \<times> string) option" where
  "hashrate_match s =
     (let g = takeWhile (\<lambda>c. isdigit c \<or> c = CHR ''.'') s;
          u = dropWhile (\<lambda>c. isdigit c \<or> c = CHR ''.'') s in
      if is_number g \<and> length u \<le> 2 \<and> list_all isupper u then Some (g, u) else None)"

text \<open>\<open>_parse_hashrate_to_hs\<close>; the text is first normalised by
  \<open>str(v).strip().upper().replace(" ", "")\<close>. The source compares the normalised text
  with three placeholders: the empty text, the hyphen and the em dash. The em dash is
  \<open>PDash\<close>, which normalises to itself; no text of the characters of this model equals
  it.\<close>

definition normalise_text :: "string \<Rightarrow> string" where
  "normalise_text t = filter (\<lambda>c. c \<noteq> CHR '' '') (map to_upper (py_strip t))"

definition parse_hashrate_to_hs :: "pyval \<Rightarrow> pyfloat" where
  "parse_hashrate_to_hs v =
     (case v of
        PNone \<Rightarrow> Fin 0
      | PInt i \<Rightarrow> Fin (of_int i)
      | PFloat f \<Rightarrow> f
      | PDash \<Rightarrow> Fin 0
      | PStr t \<Rightarrow>
          (let s = normalise_text t in
           if s = ''-'' \<or> s = [] then Fin 0
           else (case py_float s of
                   Some f \<Rightarrow> f
                 | None \<Rightarrow>
                     (case hashrate_match s of
                        None \<Rightarrow> Fin 0
                      | Some (num, unit) \<Rightarrow>
                          (case py_float num of
                             Some n \<Rightarrow> fl_mul n (Fin (dict_get UNIT_MAP unit 1))
                           | None \<Rightarrow> Fin 0)))))"

text \<open>\<open>_human_hashrate\<close>: the loop over the units, largest first.\<close>

definition hashrate_units :: "(string \<times> rat) list" where
  "hashrate_units = [(''E'', 10 ^ 18), (''P'', 10 ^ 15), (''T'', 10 ^ 12), (''G'', 10 ^ 9),
     (''M'', 10 ^ 6), (''K'', 10 ^ 3)]"

fun human_loop :: "(string \<times> rat) list \<Rightarrow> pyfloat \<Rightarrow> string" where
  "human_loop [] hs = format_fixed 0 hs"
| "human_loop ((u, m) # rest) hs =
     (if fl_ge hs m then format_fixed 2 (fl_div hs m) @ u else human_loop rest hs)"

definition human_hashrate :: "pyfloat \<Rightarrow> string" where
  "human_hashrate hs = human_loop hashrate_units hs"


section \<open>JSON values\<close>

text \<open>The values \<open>json.loads\<close> and \<open>Response.json\<close> return; an object is its list of
  members in order.\<close>

datatype json = JNull | JBool bool | JInt int | JFloat pyfloat | JStr string
  | JArr "json list" | JObj "(string \<times> json) list"

text \<open>Truth of a value in a condition or under \<open>or\<close>, the test \<open>isinstance(v, dict)\<close>,
  \<open>d.get(k)\<close>, \<open>k in d\<close> and \<open>d[k] = v\<close>.\<close>

definition truthy :: "json \<Rightarrow> bool" where
  "truthy v = (case v of JNull \<Rightarrow> False | JBool b \<Rightarrow> b | JInt i \<Rightarrow> i \<noteq> 0
     | JFloat f \<Rightarrow> f \<noteq> Fin 0 | JStr s \<Rightarrow> s \<noteq> [] | JArr xs \<Rightarrow> xs \<noteq> [] | JObj kvs \<Rightarrow> kvs \<noteq> [])"

definition is_dict :: "json \<Rightarrow> bool" where
  "is_dict v = (case v of JObj _ \<Rightarrow> True | _ \<Rightarrow> False)"

definition obj_get :: "json \<Rightarrow> string \<Rightarrow> json" where
  "obj_get v k = (case v of JObj kvs \<Rightarrow> dict_get kvs k JNull | _ \<Rightarrow> JNull)"

definition obj_has :: "json \<Rightarrow> string \<Rightarrow> bool" where
  "obj_has v k = (case v of JObj kvs \<Rightarrow> map_of kvs k \<noteq> None | _ \<Rightarrow> False)"

fun dict_set :: "'k \<Rightarrow> 'v \<Rightarrow> ('k \<times> 'v) list \<Rightarrow> ('k \<times> 'v) list" where
  "dict_set k v [] = [(k, v)]"
| "dict_set k v ((k', v') # r) = (if k = k' then (k, v) # r else (k', v') # dict_set k v r)"

section \<open>Pool metrics table\<close>








section \<open>Remote status\<close>

text \<open>What \<open>requests.get\<close> and \<open>Response.json\<close> give: no response at all (connection
  error, timeout), or a response with its status code and its body, \<open>None\<close> when the body
  is not JSON.\<close>

datatype fetched = ConnectionFailed | Reply nat "json option"

text \<open>The loop body of \<open>_fetch_status_http\<close> on one element of \<open>users\<close>; \<open>None\<close>
  stands for an exception (an element that is no dictionary, a \<open>user\<close> that cannot be
  split, a \<open>wallet\<close> that is no text). \<open>py_str\<close> is \<open>str\<close> on values other than text.\<close>

definition split_first :: "char \<Rightarrow> string \<Rightarrow> string" where
  "split_first c s = takeWhile (\<lambda>x. x \<noteq> c) s"

definition fill_user :: "(json \<Rightarrow> string) \<Rightarrow> json \<Rightarrow> json option" where
  "fill_user py_str u =
     (case u of
        JObj kvs \<Rightarrow>
          (let user = dict_get kvs ''user'' JNull;
               given = dict_get kvs ''wallet'' JNull;
               wallet = (if truthy given then Some given
                         else if truthy user
                           then (case user of JStr s \<Rightarrow> Some (JStr (split_first CHR ''.'' s)) | _ \<Rightarrow> None)
                         else Some (JStr []))
           in case wallet of
                Some (JStr w) \<Rightarrow>
                  (let user_s = (if truthy user then (case user of JStr s \<Rightarrow> s | _ \<Rightarrow> py_str user)
                                 else []);
                       wrk = (if startswith user_s (w @ ''.'') then drop (length w + 1) user_s else [])
                   in Some (JObj (dict_set ''worker'' (JStr wrk)
                                   (dict_set ''address'' (JStr w) (dict_set ''wallet'' (JStr w) kvs)))))
              | _ \<Rightarrow> None)
      | _ \<Rightarrow> None)"

text \<open>The loop over \<open>data.get("users") or []\<close>; only a list of dictionaries goes through
  without an exception.\<close>

definition fill_users :: "(json \<Rightarrow> string) \<Rightarrow> json \<Rightarrow> json option" where
  "fill_users py_str users =
     (if \<not> truthy users then Some (JArr [])
      else (case users of
              JArr xs \<Rightarrow> map_option JArr (those (map (fill_user py_str) xs))
            | _ \<Rightarrow> None))"

text \<open>\<open>_fetch_status_http\<close>. \<open>Response.raise_for_status\<close> raises for the status
  codes 400 to 599; every exception is caught by the handler that returns the empty
  snapshot.\<close>

definition empty_snapshot :: json where
  "empty_snapshot = JObj [(''pool'', JObj []), (''users'', JArr []), (''totals'', JObj [])]"

definition raise_for_status :: "nat \<Rightarrow> bool" where
  "raise_for_status code = (400 \<le> code \<and> code < 600)"

definition status_payload :: "json \<Rightarrow> json" where
  "status_payload data =
     (if is_dict data \<and> obj_has data ''status'' \<and> is_dict (obj_get data ''status'')
      then obj_get data ''status'' else data)"

definition fetch_status_http :: "(json \<Rightarrow> string) \<Rightarrow> fetched \<Rightarrow> json" where
  "fetch_status_http py_str r =
     (case r of
        ConnectionFailed \<Rightarrow> empty_snapshot
      | Reply code body \<Rightarrow>
          if raise_for_status code then empty_snapshot
          else (case body of
                  None \<Rightarrow> empty_snapshot
                | Some data0 \<Rightarrow>
                    (let data = status_payload data0 in
                     if \<not> is_dict data then JObj [(''pool'', JObj []), (''users'', JArr [])]
                     else (let pool = (if truthy (obj_get data ''pool'') then obj_get data ''pool''
                                       else JObj [])
                           in case fill_users py_str (obj_get data ''users'') of
                                None \<Rightarrow> empty_snapshot
                              | Some users \<Rightarrow>
                                  JObj [(''pool'', pool), (''users'', users), (''totals'', JObj [])]))))"

section \<open>Per-wallet aggregation\<close>

text \<open>Truth of a cell value and \<open>a or b\<close>.\<close>

definition py_truthy :: "pyval \<Rightarrow> bool" where
  "py_truthy v = (case v of PNone \<Rightarrow> False | PInt i \<Rightarrow> i \<noteq> 0 | PFloat f \<Rightarrow> f \<noteq> Fin 0
     | PStr s \<Rightarrow> s \<noteq> [] | PDash \<Rightarrow> True)"

definition py_or :: "pyval \<Rightarrow> pyval \<Rightarrow> pyval" where
  "py_or a b = (if py_truthy a then a else b)"

text \<open>\<open>int(v)\<close>: an integer as it is, a finite float truncated towards zero, a text that
  is an optional sign and a digit part, white space around it ignored. \<open>None\<close> stands for
  the exception.\<close>

definition int_of_text :: "string \<Rightarrow> int option" where
  "int_of_text s =
     (let (neg, ds) = strip_sign (strip_chars float_space s) in
      if digitpart ds then Some (if neg then - int (digits_value ds) else int (digits_value ds))
      else None)"

definition py_int :: "pyval \<Rightarrow> int option" where
  "py_int v =
     (case v of
        PNone \<Rightarrow> None
      | PInt i \<Rightarrow> Some i
      | PFloat f \<Rightarrow> (case f of Fin q \<Rightarrow> Some (if 0 \<le> q then \<lfloor>q\<rfloor> else \<lceil>q\<rceil>) | _ \<Rightarrow> None)
      | PStr s \<Rightarrow> int_of_text s
      | PDash \<Rightarrow> None)"

text \<open>\<open>a > b\<close> and \<open>max(a, b)\<close> on cell values: numbers compare by value, texts
  character by character, and a number against a text or \<open>None\<close> is a \<open>TypeError\<close>,
  the result \<open>None\<close>. \<open>max(a, b)\<close> is \<open>b\<close> when \<open>b > a\<close> and \<open>a\<close> otherwise.\<close>

fun fl_less :: "pyfloat \<Rightarrow> pyfloat \<Rightarrow> bool" where
  "fl_less (Fin a) (Fin b) = (a < b)"
| "fl_less NaN y = False"
| "fl_less x NaN = False"
| "fl_less NInf y = (y \<noteq> NInf)"
| "fl_less x PInf = (x \<noteq> PInf)"
| "fl_less x y = False"

fun str_less :: "string \<Rightarrow> string \<Rightarrow> bool" where
  "str_less [] [] = False"
| "str_less [] (y # ys) = True"
| "str_less (x # xs) [] = False"
| "str_less (x # xs) (y # ys) =
     ((of_char x :: nat) < of_char y \<or> (x = y \<and> str_less xs ys))"

definition py_gt :: "pyval \<Rightarrow> pyval \<Rightarrow> bool option" where
  "py_gt a b =
     (case (a, b) of
        (PInt i, PInt j) \<Rightarrow> Some (j < i)
      | (PInt i, PFloat g) \<Rightarrow> Some (fl_less g (Fin (of_int i)))
      | (PFloat f, PInt j) \<Rightarrow> Some (fl_less (Fin (of_int j)) f)
      | (PFloat f, PFloat g) \<Rightarrow> Some (fl_less g f)
      | (PStr s, PStr t) \<Rightarrow> Some (str_less t s)
      | (PDash, PStr t) \<Rightarrow> Some True
      | (PStr s, PDash) \<Rightarrow> Some False
      | (PDash, PDash) \<Rightarrow> Some False
      | _ \<Rightarrow> None)"

definition py_max :: "pyval \<Rightarrow> pyval \<Rightarrow> pyval option" where
  "py_max a b = (case py_gt b a of None \<Rightarrow> None | Some g \<Rightarrow> Some (if g then b else a))"

text \<open>\<open>_split_addr_worker\<close>: split at the first dot.\<close>

definition split_addr_worker :: "string \<Rightarrow> string \<times> string option" where
  "split_addr_worker s =
     (if CHR ''.'' \<in> set s
      then (takeWhile (\<lambda>c. c \<noteq> CHR ''.'') s, Some (tl (dropWhile (\<lambda>c. c \<noteq> CHR ''.'') s)))
      else (s, None))"

text \<open>A row of \<open>user_stats\<close>, with the columns the snapshot query selects. The query
  joins each address with its greatest \<open>ts\<close>; the address being the key of the table,
  this keeps the rows whose \<open>ts\<close> is not \<open>NULL\<close>. Rows come in table order.\<close>

record user_row =
  us_address :: string
  us_ts :: pyval
  us_hashrate1m :: pyval
  us_hashrate5m :: pyval
  us_hashrate1hr :: pyval
  us_lastshare :: pyval
  us_workers :: pyval
  us_shares :: pyval
  us_bestshare :: pyval

definition latest_rows :: "user_row list \<Rightarrow> user_row list" where
  "latest_rows tbl = filter (\<lambda>r. us_ts r \<noteq> PNone) tbl"

text \<open>The dictionary kept per wallet by the loop of \<open>_build_from_log\<close>: created from
  the first row of a wallet, updated by each further row. In \<open>first_agg\<close> and
  \<open>merge_agg\<close> the result \<open>None\<close> stands for an exception that leaves the function; the
  updates of \<open>lastshare\<close> and \<open>shares\<close> are inside \<open>try\<close> blocks and keep the old
  value instead.\<close>

record agg =
  ag_ts :: pyval
  hashrate1m_sum :: pyfloat
  hashrate5m_sum :: pyfloat
  hashrate1hr_sum :: pyfloat
  ag_lastshare :: pyval
  workers_reported :: int
  ag_shares :: int
  ag_bestshare :: pyval

definition first_agg :: "user_row \<Rightarrow> agg option" where
  "first_agg r =
     (case (py_int (py_or (us_workers r) (PInt 0)), py_int (py_or (us_shares r) (PInt 0))) of
        (Some w, Some s) \<Rightarrow>
          Some \<lparr>ag_ts = us_ts r,
                hashrate1m_sum = parse_hashrate_to_hs (py_or (us_hashrate1m r) (PInt 0)),
                hashrate5m_sum = parse_hashrate_to_hs (py_or (us_hashrate5m r) (PInt 0)),
                hashrate1hr_sum = parse_hashrate_to_hs (py_or (us_hashrate1hr r) (PInt 0)),
                ag_lastshare = py_or (us_lastshare r) (us_ts r),
                workers_reported = w, ag_shares = s,
                ag_bestshare = py_or (us_bestshare r) (PInt 0)\<rparr>
      | _ \<Rightarrow> None)"

definition merge_agg :: "agg \<Rightarrow> user_row \<Rightarrow> agg option" where
  "merge_agg cur r =
     (case (if py_truthy (us_ts r) then py_gt (us_ts r) (py_or (ag_ts cur) (PInt 0)) else Some False) of
        None \<Rightarrow> None
      | Some newer \<Rightarrow>
          (case py_int (py_or (us_workers r) (PInt 0)) of
             None \<Rightarrow> None
           | Some w \<Rightarrow>
               (case py_max (py_or (ag_bestshare cur) (PInt 0)) (py_or (us_bestshare r) (PInt 0)) of
                  None \<Rightarrow> None
                | Some best \<Rightarrow>
                    Some \<lparr>ag_ts = (if newer then us_ts r else ag_ts cur),
                          hashrate1m_sum = fl_add (hashrate1m_sum cur)
                             (parse_hashrate_to_hs (py_or (us_hashrate1m r) (PInt 0))),
                          hashrate5m_sum = fl_add (hashrate5m_sum cur)
                             (parse_hashrate_to_hs (py_or (us_hashrate5m r) (PInt 0))),
                          hashrate1hr_sum = fl_add (hashrate1hr_sum cur)
                             (parse_hashrate_to_hs (py_or (us_hashrate1hr r) (PInt 0))),
                          ag_lastshare =
                            (if py_truthy (us_lastshare r) then
                               (case (py_int (us_lastshare r),
                                      py_int (py_or (ag_lastshare cur) (PInt 0))) of
                                  (Some a, Some b) \<Rightarrow> if b < a then us_lastshare r else ag_lastshare cur
                                | _ \<Rightarrow> ag_lastshare cur)
                             else ag_lastshare cur),
                          workers_reported = max (workers_reported cur) w,
                          ag_shares =
                            (case py_int (py_or (us_shares r) (PInt 0)) of
                               Some s \<Rightarrow> ag_shares cur + s | None \<Rightarrow> ag_shares cur),
                          ag_bestshare = best\<rparr>)))"

text \<open>One turn of the loop; \<open>per_wallet\<close> is a dictionary in insertion order.\<close>

definition add_row :: "(string \<times> agg) list option \<Rightarrow> user_row \<Rightarrow> (string \<times> agg) list option" where
  "add_row acc r =
     (case acc of
        None \<Rightarrow> None
      | Some per_wallet \<Rightarrow>
          (let wallet = fst (split_addr_worker (us_address r)) in
           case map_of per_wallet wallet of
             None \<Rightarrow> map_option (\<lambda>a. per_wallet @ [(wallet, a)]) (first_agg r)
           | Some cur \<Rightarrow> map_option (\<lambda>a. dict_set wallet a per_wallet) (merge_agg cur r)))"

text \<open>The second loop renders each sum: formatted when it is positive, the em dash
  otherwise.\<close>

definition render_sum :: "pyfloat \<Rightarrow> pyval" where
  "render_sum hs = (if fl_gt hs 0 then PStr (human_hashrate hs) else PDash)"

record wallet_snap =
  sn_agg :: agg
  sn_hashrate1m :: pyval
  sn_hashrate5m :: pyval
  sn_hashrate1hr :: pyval
  workers_cnt :: int

definition render_agg :: "agg \<Rightarrow> wallet_snap" where
  "render_agg a = \<lparr>sn_agg = a, sn_hashrate1m = render_sum (hashrate1m_sum a),
     sn_hashrate5m = render_sum (hashrate5m_sum a), sn_hashrate1hr = render_sum (hashrate1hr_sum a),
     workers_cnt = workers_reported a\<rparr>"

definition per_wallet_snapshots :: "user_row list \<Rightarrow> (string \<times> wallet_snap) list option" where
  "per_wallet_snapshots tbl =
     map_option (map (\<lambda>(w, a). (w, render_agg a))) (foldl add_row (Some []) (latest_rows tbl))"

text \<open>Rows whose \<open>ts\<close>, \<open>workers\<close>, \<open>shares\<close> and \<open>bestshare\<close> cells are numbers or
  \<open>NULL\<close>, with a \<open>ts\<close> that is not \<open>NULL\<close>.\<close>

definition number_cell :: "pyval \<Rightarrow> bool" where
  "number_cell v = (case v of PNone \<Rightarrow> True | PInt i \<Rightarrow> True
     | PFloat f \<Rightarrow> (case f of Fin q \<Rightarrow> True | _ \<Rightarrow> False) | _ \<Rightarrow> False)"

definition plain_row :: "user_row \<Rightarrow> bool" where
  "plain_row r = (us_ts r \<noteq> PNone \<and> number_cell (us_ts r) \<and> number_cell (us_workers r)
     \<and> number_cell (us_shares r) \<and> number_cell (us_bestshare r))"

section \<open>Patterns\<close>

text \<open>The class \<open>\w\<close> of the patterns, on the characters of the model: letters, digits
  and the underscore, and the letters and numeric characters above 127.\<close>

definition isword :: "char \<Rightarrow> bool" where
  "isword c = (let n = (of_char c :: nat) in
     isalpha c \<or> isdigit c \<or> c = CHR ''_'' \<or> n = 170 \<or> n = 178 \<or> n = 179 \<or> n = 181 \<or> n = 185
     \<or> n = 186 \<or> (188 \<le> n \<and> n \<le> 190) \<or> (192 \<le> n \<and> n \<le> 214) \<or> (216 \<le> n \<and> n \<le> 246)
     \<or> 248 \<le> n)"

text \<open>The patterns of the program are built from single characters of a class, greedy
  bounded repetition of such characters, sequence, ordered alternative, the empty pattern,
  named groups, the word boundary \<open>\b\<close> and the end of text \<open>$\<close> (the end, or just
  before a final line feed).\<close>

datatype re = Cls "char \<Rightarrow> bool" | Rep "char \<Rightarrow> bool" nat "nat option" | Seq re re | Alt re re
  | Eps | Grp string re | WordB | Eol

text \<open>Matching is backtracking search, as in the \<open>re\<close> module: \<open>mt r p s c k\<close>
  matches \<open>r\<close> at the beginning of \<open>s\<close>, where \<open>p\<close> is the character before \<open>s\<close> and
  \<open>c\<close> the groups captured so far, and hands the rest to the continuation \<open>k\<close>; when
  the continuation fails the next alternative is tried: a shorter repetition, or the
  second branch of an alternative. A repetition first takes as many characters as it
  may.\<close>

type_synonym caps = "(string \<times> string) list"

fun rep_try :: "nat \<Rightarrow> nat \<Rightarrow> string \<Rightarrow> char option \<Rightarrow> caps
    \<Rightarrow> (char option \<Rightarrow> string \<Rightarrow> caps \<Rightarrow> 'a option) \<Rightarrow> 'a option" where
  "rep_try lo 0 s p c k = (if lo = 0 then k p s c else None)"
| "rep_try lo (Suc n) s p c k =
     (if Suc n < lo then None
      else (case k (Some (s ! n)) (drop (Suc n) s) c of
              Some r \<Rightarrow> Some r
            | None \<Rightarrow> rep_try lo n s p c k))"

definition word_at :: "char option \<Rightarrow> bool" where
  "word_at p = (case p of None \<Rightarrow> False | Some c \<Rightarrow> isword c)"

fun mt :: "re \<Rightarrow> char option \<Rightarrow> string \<Rightarrow> caps
    \<Rightarrow> (char option \<Rightarrow> string \<Rightarrow> caps \<Rightarrow> 'a option) \<Rightarrow> 'a option" where
  "mt (Cls P) p s c k = (case s of [] \<Rightarrow> None | x # xs \<Rightarrow> if P x then k (Some x) xs c else None)"
| "mt (Rep P lo hi) p s c k =
     (let m = length (takeWhile P s); n = (case hi of None \<Rightarrow> m | Some h \<Rightarrow> min m h)
      in rep_try lo n s p c k)"
| "mt (Seq a b) p s c k = mt a p s c (\<lambda>p' s' c'. mt b p' s' c' k)"
| "mt (Alt a b) p s c k = (case mt a p s c k of Some r \<Rightarrow> Some r | None \<Rightarrow> mt b p s c k)"
| "mt Eps p s c k = k p s c"
| "mt (Grp g r) p s c k =
     mt r p s c (\<lambda>p' s' c'. k p' s' (dict_set g (take (length s - length s') s) c'))"
| "mt WordB p s c k =
     (if word_at p \<noteq> word_at (case s of [] \<Rightarrow> None | x # xs \<Rightarrow> Some x) then k p s c else None)"
| "mt Eol p s c k = (if s = [] \<or> s = [CHR 0x0A] then k p s c else None)"

text \<open>\<open>pattern.match(s)\<close>, giving the captured groups, and \<open>m.group(name)\<close>, which is
  \<open>None\<close> for a group that took no part in the match.\<close>

definition re_match :: "re \<Rightarrow> string \<Rightarrow> caps option" where
  "re_match r s = mt r None s [] (\<lambda>p s' c. Some c)"

definition group :: "caps \<Rightarrow> string \<Rightarrow> string option" where
  "group m g = map_of m g"

text \<open>Abbreviations: a sequence of patterns, an optional pattern, a class or a literal
  under \<open>re.IGNORECASE\<close> (a character matches when it or one of its case variants
  does), a character range.\<close>

fun seqs :: "re list \<Rightarrow> re" where
  "seqs [] = Eps"
| "seqs [r] = r"
| "seqs (r # rs) = Seq r (seqs rs)"

definition opt :: "re \<Rightarrow> re" where
  "opt r = Alt r Eps"

definition ic :: "(char \<Rightarrow> bool) \<Rightarrow> char \<Rightarrow> bool" where
  "ic P c = (P c \<or> P (to_lower c) \<or> P (to_upper c))"

definition lit :: "string \<Rightarrow> re" where
  "lit s = seqs (map (\<lambda>p. Cls (\<lambda>c. c = p)) s)"

definition lit_ic :: "string \<Rightarrow> re" where
  "lit_ic s = seqs (map (\<lambda>p. Cls (ic (\<lambda>c. c = p))) s)"

definition in_range :: "char \<Rightarrow> char \<Rightarrow> char \<Rightarrow> bool" where
  "in_range a b c = ((of_char a :: nat) \<le> of_char c \<and> (of_char c :: nat) \<le> of_char b)"

text \<open>The optional bracketed time stamp \<open>(?:\[(?P<ts>[\d\-:\. ]+)\]\s*)?\<close>.\<close>

definition ts_char :: "char \<Rightarrow> bool" where
  "ts_char c = (isdigit c \<or> c = CHR ''-'' \<or> c = CHR '':'' \<or> c = CHR ''.'' \<or> c = CHR '' '')"

definition TS_PREFIX :: re where
  "TS_PREFIX = opt (seqs [lit ''['', Grp ''ts'' (Rep ts_char 1 None), lit '']'', Rep isspace 0 None])"

text \<open>\<open>ADDR_RE\<close>, which is only used inside patterns compiled with \<open>re.IGNORECASE\<close>:
  \<open>(?:[13][a-km-zA-HJ-NP-Z1-9]{5,}|[tb]?c1[0-9ac-hj-np-z]{5,})(?:\.\.\.)?\<close>.\<close>

definition base58_char :: "char \<Rightarrow> bool" where
  "base58_char c = (in_range CHR ''a'' CHR ''k'' c \<or> in_range CHR ''m'' CHR ''z'' c
     \<or> in_range CHR ''A'' CHR ''H'' c \<or> in_range CHR ''J'' CHR ''N'' c \<or> in_range CHR ''P'' CHR ''Z'' c
     \<or> in_range CHR ''1'' CHR ''9'' c)"

definition bech32_char :: "char \<Rightarrow> bool" where
  "bech32_char c = (in_range CHR ''0'' CHR ''9'' c \<or> c = CHR ''a'' \<or> in_range CHR ''c'' CHR ''h'' c
     \<or> in_range CHR ''j'' CHR ''n'' c \<or> in_range CHR ''p'' CHR ''z'' c)"

definition ADDR_RE :: re where
  "ADDR_RE = Seq
     (Alt (Seq (Cls (ic (\<lambda>c. c = CHR ''1'' \<or> c = CHR ''3''))) (Rep (ic base58_char) 5 None))
          (seqs [opt (Cls (ic (\<lambda>c. c = CHR ''t'' \<or> c = CHR ''b''))), lit_ic ''c1'',
                 Rep (ic bech32_char) 5 None]))
     (opt (lit ''...''))"

text \<open>\<open>WORKER_RE\<close>, the dot \<open>.\<close> (any character but the line feed) and \<open>\s+\<close>.\<close>

definition WORKER_RE :: re where
  "WORKER_RE = Rep worker_char 1 (Some 64)"

definition any_char :: "char \<Rightarrow> bool" where
  "any_char c = (c \<noteq> CHR 0x0A)"

definition sp1 :: re where
  "sp1 = Rep isspace 1 None"

text \<open>The line patterns. \<open>AUTH_RE\<close>, \<open>DROP_RE\<close> and their two fall-backs are
  compiled with \<open>re.VERBOSE\<close>, so the white space in their source text is no part of the
  pattern.\<close>

definition AUTH_RE :: re where
  "AUTH_RE = seqs [TS_PREFIX, lit_ic ''Authorised'', sp1, lit_ic ''client'', sp1, Rep isdigit 1 None, sp1,
     Rep (\<lambda>c. \<not> isspace c) 1 None, sp1, lit_ic ''worker'', sp1, Grp ''wallet'' ADDR_RE, lit ''.'',
     Grp ''worker'' (Rep (ic worker_char) 1 (Some 64)), sp1, lit_ic ''as'', sp1, lit_ic ''user'', sp1,
     Grp ''addr'' ADDR_RE, WordB, Rep any_char 0 None, Eol]"

definition DROP_RE :: re where
  "DROP_RE = seqs [TS_PREFIX, lit_ic ''Dropped'', sp1, lit_ic ''client'', sp1, Rep isdigit 1 None, sp1,
     Rep (\<lambda>c. \<not> isspace c) 1 None, sp1, lit_ic ''user'', sp1, Grp ''addr'' ADDR_RE, sp1,
     lit_ic ''worker'', sp1, Grp ''wallet'' ADDR_RE, lit ''.'',
     Grp ''worker'' (Rep (ic worker_char) 1 (Some 64)), WordB, Rep any_char 0 None, Eol]"

definition AUTH_NO_WORKER_RE :: re where
  "AUTH_NO_WORKER_RE = seqs [TS_PREFIX, lit_ic ''Authorised'', sp1, lit_ic ''client'', sp1,
     Rep isdigit 1 None, sp1, Rep (\<lambda>c. \<not> isspace c) 1 None, sp1, lit_ic ''worker'', sp1,
     Grp ''wallet_only'' ADDR_RE, sp1, lit_ic ''as'', sp1, lit_ic ''user'', sp1,
     Grp ''addr'' ADDR_RE, WordB, Rep any_char 0 None, Eol]"

definition DROP_NO_WORKER_RE :: re where
  "DROP_NO_WORKER_RE = seqs [TS_PREFIX, lit_ic ''Dropped'', sp1, lit_ic ''client'', sp1,
     Rep isdigit 1 None, sp1, Rep (\<lambda>c. \<not> isspace c) 1 None, sp1, lit_ic ''user'', sp1,
     Grp ''addr'' ADDR_RE, sp1, lit_ic ''worker'', sp1, Grp ''wallet_only'' ADDR_RE, WordB,
     Rep any_char 0 None, Eol]"

text \<open>The two share dialects; they share the \<open>id\<close> group and the tail from the
  difficulty on.\<close>

definition SHARE_ID :: re where
  "SHARE_ID = Grp ''id'' (Seq ADDR_RE (opt (Seq (lit ''.'') (Rep (ic worker_char) 1 (Some 64)))))"

definition SHARE_TAIL :: re where
  "SHARE_TAIL = seqs [sp1, opt (Seq (lit_ic ''at'') sp1), lit_ic ''diff'', sp1,
     Grp ''rawdiff'' (Seq (Rep isdigit 1 None) (opt (Seq (lit ''/'') (Rep isdigit 1 None)))),
     Rep any_char 0 None, Eol]"

definition SHARE_PATS :: "re list" where
  "SHARE_PATS =
     [seqs [TS_PREFIX, lit_ic ''Share'', sp1,
            Grp ''status'' (Alt (lit_ic ''accepted'') (lit_ic ''rejected'')), sp1, lit_ic ''from'', sp1,
            SHARE_ID, SHARE_TAIL],
      seqs [TS_PREFIX, Alt (lit_ic ''Accepted'') (lit_ic ''Rejected''), sp1, lit_ic ''share'', sp1,
            lit_ic ''from'', sp1, SHARE_ID, SHARE_TAIL]]"

text \<open>\<open>POOL_JSON_RE\<close> is compiled with \<open>re.DOTALL\<close>: its dot matches every
  character.\<close>

definition POOL_JSON_RE :: re where
  "POOL_JSON_RE = seqs [TS_PREFIX, lit ''Pool:'', Rep isspace 0 None,
     Grp ''payload'' (seqs [lit ''{'', Rep (\<lambda>c. True) 0 None, lit ''}'']), Rep isspace 0 None, Eol]"

definition USER_RE :: re where
  "USER_RE = seqs [TS_PREFIX, lit_ic ''User'', sp1, Grp ''addr'' ADDR_RE, Rep isspace 0 None,
     opt (lit '':''), Rep isspace 0 None,
     Grp ''payload'' (seqs [lit ''{'', Rep any_char 0 None, lit ''}'']), Rep isspace 0 None, Eol]"

section \<open>Line parsers\<close>

text \<open>The clock and the date parser of the library are parameters: \<open>utcnow\<close> is the
  current time in seconds, \<open>parse_time\<close> the seconds of a date text that one of
  \<open>TS_FORMATS\<close> or \<open>fromisoformat\<close> accepts. \<open>parse_bracket_ts\<close> falls back on the
  current time.\<close>

record clock =
  utcnow :: int
  parse_time :: "string \<Rightarrow> int option"

definition parse_bracket_ts :: "clock \<Rightarrow> string option \<Rightarrow> int" where
  "parse_bracket_ts ck v =
     (case v of
        None \<Rightarrow> utcnow ck
      | Some s \<Rightarrow>
          if s = [] then utcnow ck
          else (case parse_time ck (py_strip s) of Some t \<Rightarrow> t | None \<Rightarrow> utcnow ck))"

text \<open>\<open>_scale_diff\<close>: \<open>float(raw)\<close>, or the quotient of the two sides of the first
  slash; \<open>None\<close> for any exception, division by zero included.\<close>

fun fl_quot :: "pyfloat \<Rightarrow> pyfloat \<Rightarrow> pyfloat option" where
  "fl_quot (Fin a) (Fin b) = (if b = 0 then None else Some (Fin (a / b)))"
| "fl_quot NaN (Fin b) = (if b = 0 then None else Some NaN)"
| "fl_quot PInf (Fin b) = (if b = 0 then None else Some (if 0 < b then PInf else NInf))"
| "fl_quot NInf (Fin b) = (if b = 0 then None else Some (if 0 < b then NInf else PInf))"
| "fl_quot x NaN = Some NaN"
| "fl_quot (Fin a) y = Some (Fin 0)"
| "fl_quot NaN y = Some NaN"
| "fl_quot x y = Some NaN"

definition scale_diff :: "string \<Rightarrow> pyfloat option" where
  "scale_diff raw =
     (if CHR ''/'' \<in> set raw
      then (case (py_float (takeWhile (\<lambda>c. c \<noteq> CHR ''/'') raw),
                  py_float (tl (dropWhile (\<lambda>c. c \<noteq> CHR ''/'') raw))) of
              (Some a, Some b) \<Rightarrow> fl_quot a b
            | _ \<Rightarrow> None)
      else py_float raw)"

text \<open>\<open>parse_share_line\<close>: the first dialect that matches the stripped line gives the
  event.\<close>

record share_event =
  sh_ts :: int
  sh_status :: string
  sh_address :: string
  sh_worker :: "string option"
  sh_rawdiff :: "string option"
  sh_scaled :: "pyfloat option"
  sh_ip :: "string option"

fun first_match :: "re list \<Rightarrow> string \<Rightarrow> caps option" where
  "first_match [] s = None"
| "first_match (r # rs) s = (case re_match r s of Some m \<Rightarrow> Some m | None \<Rightarrow> first_match rs s)"

definition parse_share_line :: "clock \<Rightarrow> string \<Rightarrow> share_event option" where
  "parse_share_line ck line =
     (let s = py_strip line in
      case first_match SHARE_PATS s of
        None \<Rightarrow> None
      | Some m \<Rightarrow>
          (let combined = (case group m ''id'' of Some i \<Rightarrow> i | None \<Rightarrow> []);
               rawdiff = group m ''rawdiff''
           in Some \<lparr>sh_ts = parse_bracket_ts ck (group m ''ts''),
                    sh_status = (if contains ''Accepted'' s \<or> contains ''accepted'' s
                                 then ''accepted'' else ''rejected''),
                    sh_address = fst (split_addr_worker combined),
                    sh_worker = snd (split_addr_worker combined),
                    sh_rawdiff = rawdiff,
                    sh_scaled = (case rawdiff of
                                   None \<Rightarrow> None
                                 | Some raw \<Rightarrow> if raw = [] then None else scale_diff raw),
                    sh_ip = None\<rparr>))"

text \<open>A clock for examples.\<close>

definition ck0 :: clock where
  "ck0 = \<lparr>utcnow = 1000, parse_time = (\<lambda>s. None)\<rparr>"

section \<open>Properties\<close>

lemma expire_length: "length (expire_stale_workers n w tbl) = length tbl"
  by (simp add: expire_stale_workers_def)

text \<open>Claim C2. A row that is active with \<open>last_seen = T\<close> is set inactive by the sweep
  run with timeout \<open>W\<close> at time \<open>T + W + 1\<close> and is left as it is, active, by the sweep run
  at time \<open>T + W - 1\<close>; the sweep keeps every row at its position.\<close>

theorem expire_sweep_boundary:
  assumes "i < length tbl" and "active (tbl ! i) = 1" and "last_seen (tbl ! i) = T"
  shows "expire_stale_workers (T + W + 1) W tbl ! i = (tbl ! i)\<lparr>active := 0\<rparr>
       \<and> expire_stale_workers (T + W - 1) W tbl ! i = tbl ! i"
  using assms by (simp add: expire_stale_workers_def expire_row_def)

theorem expire_sweep_boundary_witness:
  "expire_stale_workers (1000 + 300 + 1) 300
      [\<lparr>ws_wallet = ''1WALLET1'', ws_worker = ''rig1'', last_seen = 1000, active = 1\<rparr>] ! 0
     = \<lparr>ws_wallet = ''1WALLET1'', ws_worker = ''rig1'', last_seen = 1000, active = 0\<rparr>
   \<and> expire_stale_workers (1000 + 300 - 1) 300
      [\<lparr>ws_wallet = ''1WALLET1'', ws_worker = ''rig1'', last_seen = 1000, active = 1\<rparr>] ! 0
     = \<lparr>ws_wallet = ''1WALLET1'', ws_worker = ''rig1'', last_seen = 1000, active = 1\<rparr>"
  using expire_sweep_boundary
    [of 0 "[\<lparr>ws_wallet = ''1WALLET1'', ws_worker = ''rig1'', last_seen = 1000, active = 1\<rparr>]"
        1000 300]
  by simp





subsection \<open>Worker-name sanitization\<close>

lemma startswith_prefix: "startswith xs p = prefix p xs"
  by (induction xs p rule: startswith.induct) auto

lemma contains_sublist: "contains sub xs = sublist sub xs"
  by (induction xs) (auto simp: sublist_Cons_right startswith_prefix)










subsection \<open>Hashrate parsing and formatting\<close>



lemma isdigit_not_exp: "isdigit c \<Longrightarrow> \<not> is_exp_char c"
  by (auto simp: isdigit_def is_exp_char_def)

lemma isdigit_not_sign: "isdigit c \<Longrightarrow> c \<noteq> CHR ''-'' \<and> c \<noteq> CHR ''+''"
  by (auto simp: isdigit_def)




























lemma human_loop_pick:
  "i < length us \<Longrightarrow> fl_ge hs (snd (us ! i)) \<Longrightarrow> \<forall>j<i. \<not> fl_ge hs (snd (us ! j))
   \<Longrightarrow> human_loop us hs = format_fixed 2 (fl_div hs (snd (us ! i))) @ fst (us ! i)"
proof (induction us arbitrary: i)
  case Nil
  then show ?case by simp
next
  case (Cons a us)
  obtain u m where a: "a = (u, m)" by (cases a)
  show ?case
  proof (cases i)
    case 0
    then show ?thesis using Cons.prems a by simp
  next
    case (Suc k)
    have "\<not> fl_ge hs m" using Cons.prems(3) Suc a by auto
    moreover have "human_loop us hs = format_fixed 2 (fl_div hs (snd (us ! k))) @ fst (us ! k)"
      using Cons.prems Suc by (intro Cons.IH) auto
    ultimately show ?thesis using Suc a by simp
  qed
qed

lemma human_loop_none:
  "\<forall>j<length us. \<not> fl_ge hs (snd (us ! j)) \<Longrightarrow> human_loop us hs = format_fixed 0 hs"
proof (induction us)
  case Nil
  then show ?case by simp
next
  case (Cons a us)
  obtain u m where a: "a = (u, m)" by (cases a)
  have "\<not> fl_ge hs m" using Cons.prems a by auto
  moreover have "human_loop us hs = format_fixed 0 hs"
    using Cons.prems by (intro Cons.IH) auto
  ultimately show ?case using a by simp
qed




















subsection \<open>Pool metrics upsert\<close>



subsection \<open>Remote status failures\<close>

text \<open>Claim C9, as the code has it. The remote fetch returns the empty snapshot (empty pool,
  empty user list) when there is no response, when the status code is between 400 and 599,
  when the body is not JSON, when the payload is not a dictionary (then without the
  \<open>totals\<close> member) and when the loop over the users fails. Whatever happens, the result
  is a dictionary with the members \<open>pool\<close> and \<open>users\<close>; the function is total, every
  exception of the source being a branch that returns.\<close>

theorem fetch_failure_gives_empty_snapshot:
  "fetch_status_http py_str ConnectionFailed = empty_snapshot
   \<and> (400 \<le> code \<and> code < 600 \<longrightarrow> fetch_status_http py_str (Reply code body) = empty_snapshot)
   \<and> fetch_status_http py_str (Reply code None) = empty_snapshot
   \<and> (\<not> (400 \<le> code \<and> code < 600) \<and> \<not> is_dict (status_payload data)
        \<longrightarrow> fetch_status_http py_str (Reply code (Some data))
              = JObj [(''pool'', JObj []), (''users'', JArr [])])
   \<and> (\<not> (400 \<le> code \<and> code < 600) \<and> is_dict (status_payload data)
        \<and> fill_users py_str (obj_get (status_payload data) ''users'') = None
        \<longrightarrow> fetch_status_http py_str (Reply code (Some data)) = empty_snapshot)
   \<and> obj_has (fetch_status_http py_str r) ''pool'' \<and> obj_has (fetch_status_http py_str r) ''users''
   \<and> obj_get empty_snapshot ''pool'' = JObj [] \<and> obj_get empty_snapshot ''users'' = JArr []"
  by (auto simp: fetch_status_http_def raise_for_status_def empty_snapshot_def obj_has_def obj_get_def
      dict_get_def Let_def split: fetched.splits option.splits)

theorem fetch_failure_gives_empty_snapshot_witness:
  "fetch_status_http (\<lambda>v. []) (Reply 503 (Some (JObj [(''pool'', JObj [(''Users'', JInt 1)])])))
     = empty_snapshot
   \<and> fetch_status_http (\<lambda>v. []) (Reply 200 (Some (JArr [JInt 1])))
     = JObj [(''pool'', JObj []), (''users'', JArr [])]
   \<and> fetch_status_http (\<lambda>v. []) (Reply 200 (Some (JObj [(''users'', JArr [JInt 1])])))
     = empty_snapshot"
  using fetch_failure_gives_empty_snapshot
      [of "\<lambda>v. []" 503 "Some (JObj [(''pool'', JObj [(''Users'', JInt 1)])])" "JNull" ConnectionFailed]
    fetch_failure_gives_empty_snapshot
      [of "\<lambda>v. []" 200 None "JArr [JInt 1]" ConnectionFailed]
    fetch_failure_gives_empty_snapshot
      [of "\<lambda>v. []" 200 None "JObj [(''users'', JArr [JInt 1])]" ConnectionFailed]
  by (simp add: status_payload_def is_dict_def obj_has_def obj_get_def dict_get_def fill_users_def
      fill_user_def truthy_def)

text \<open>The claim as stated fails for a status code outside 200 to 299 that is no error code:
  a response with status 300 and a well-formed body is used like a successful one.\<close>

theorem fetch_redirect_status_counterexample:
  "fetch_status_http (\<lambda>v. []) (Reply 300 (Some (JObj [(''pool'', JObj [(''Users'', JInt 1)])])))
     = JObj [(''pool'', JObj [(''Users'', JInt 1)]), (''users'', JArr []), (''totals'', JObj [])]"
  by (simp add: fetch_status_http_def raise_for_status_def status_payload_def is_dict_def obj_has_def
      obj_get_def dict_get_def fill_users_def truthy_def)

subsection \<open>Aggregation of sub-accounts\<close>

lemma parse_or_zero: "parse_hashrate_to_hs (py_or h (PInt 0)) = parse_hashrate_to_hs h"
  by (cases h) (auto simp: py_or_def py_truthy_def parse_hashrate_to_hs_def normalise_text_def
      py_strip_def strip_chars_def)

lemma py_int_number: "number_cell v \<Longrightarrow> \<exists>i. py_int (py_or v (PInt 0)) = Some i"
  by (cases v) (auto simp: number_cell_def py_or_def py_truthy_def py_int_def split: pyfloat.splits)

lemma py_or_number:
  "number_cell v \<Longrightarrow> number_cell (py_or v (PInt 0)) \<and> py_or v (PInt 0) \<noteq> PNone"
  by (cases v) (auto simp: number_cell_def py_or_def py_truthy_def)

lemma py_gt_number:
  "number_cell a \<Longrightarrow> a \<noteq> PNone \<Longrightarrow> number_cell b \<Longrightarrow> b \<noteq> PNone \<Longrightarrow> \<exists>g. py_gt a b = Some g"
  by (cases a; cases b) (auto simp: number_cell_def py_gt_def split: pyfloat.splits)

lemma py_max_number:
  assumes "number_cell a" and "number_cell b"
  shows "\<exists>m. py_max (py_or a (PInt 0)) (py_or b (PInt 0)) = Some m \<and> number_cell m"
proof -
  obtain g where "py_gt (py_or b (PInt 0)) (py_or a (PInt 0)) = Some g"
    using py_gt_number py_or_number assms by blast
  then show ?thesis using py_or_number assms by (auto simp: py_max_def)
qed

lemma first_agg_plain:
  assumes "plain_row r"
  shows "\<exists>a. first_agg r = Some a \<and> hashrate1m_sum a = parse_hashrate_to_hs (us_hashrate1m r)
     \<and> number_cell (ag_ts a) \<and> number_cell (ag_bestshare a)"
proof -
  obtain w where w: "py_int (py_or (us_workers r) (PInt 0)) = Some w"
    using assms py_int_number unfolding plain_row_def by blast
  obtain s where s: "py_int (py_or (us_shares r) (PInt 0)) = Some s"
    using assms py_int_number unfolding plain_row_def by blast
  have "number_cell (py_or (us_bestshare r) (PInt 0))"
    using assms py_or_number unfolding plain_row_def by blast
  then show ?thesis
    using assms by (simp add: first_agg_def w s parse_or_zero plain_row_def)
qed

lemma merge_agg_plain:
  assumes "plain_row r" and "number_cell (ag_ts cur)" and "number_cell (ag_bestshare cur)"
  shows "\<exists>a. merge_agg cur r = Some a
     \<and> hashrate1m_sum a = fl_add (hashrate1m_sum cur) (parse_hashrate_to_hs (us_hashrate1m r))"
proof -
  obtain w where w: "py_int (py_or (us_workers r) (PInt 0)) = Some w"
    using assms(1) py_int_number unfolding plain_row_def by blast
  obtain n where n: "(if py_truthy (us_ts r) then py_gt (us_ts r) (py_or (ag_ts cur) (PInt 0))
                      else Some False) = Some n"
  proof (cases "py_truthy (us_ts r)")
    case True
    obtain g where "py_gt (us_ts r) (py_or (ag_ts cur) (PInt 0)) = Some g"
      using py_gt_number [of "us_ts r" "py_or (ag_ts cur) (PInt 0)"] py_or_number [OF assms(2)]
        assms(1)
      unfolding plain_row_def by blast
    then show ?thesis using True that by simp
  next
    case False
    then show ?thesis using that by simp
  qed
  obtain m where m: "py_max (py_or (ag_bestshare cur) (PInt 0)) (py_or (us_bestshare r) (PInt 0)) = Some m"
    using py_max_number [OF assms(3)] assms(1) unfolding plain_row_def by blast
  show ?thesis
    unfolding merge_agg_def n w m by (simp add: parse_or_zero)
qed

lemma split_addr_wallet:
  "CHR ''.'' \<notin> set w \<Longrightarrow> fst (split_addr_worker (w @ CHR ''.'' # s)) = w"
proof -
  assume n: "CHR ''.'' \<notin> set w"
  have "takeWhile (\<lambda>c. c \<noteq> CHR ''.'') (w @ CHR ''.'' # s) = takeWhile (\<lambda>c. c \<noteq> CHR ''.'') w"
    by (rule takeWhile_tail) simp
  also have "\<dots> = w"
    unfolding takeWhile_eq_all_conv using n by auto
  finally show ?thesis by (simp add: split_addr_worker_def)
qed

lemma two_rows_sum:
  assumes "CHR ''.'' \<notin> set wallet"
    and "us_address ra = wallet @ CHR ''.'' # sa" and "us_address rb = wallet @ CHR ''.'' # sb"
    and "plain_row ra" and "plain_row rb"
  shows "map_option (map (\<lambda>(w, s). (w, sn_hashrate1m s))) (per_wallet_snapshots [ra, rb])
     = Some [(wallet, render_sum (fl_add (parse_hashrate_to_hs (us_hashrate1m ra))
                                          (parse_hashrate_to_hs (us_hashrate1m rb))))]"
proof -
  obtain a where a: "first_agg ra = Some a"
      "hashrate1m_sum a = parse_hashrate_to_hs (us_hashrate1m ra)"
      "number_cell (ag_ts a)" "number_cell (ag_bestshare a)"
    using first_agg_plain [OF assms(4)] by blast
  obtain b where b: "merge_agg a rb = Some b"
      "hashrate1m_sum b = fl_add (hashrate1m_sum a) (parse_hashrate_to_hs (us_hashrate1m rb))"
    using merge_agg_plain [OF assms(5) a(3,4)] by blast
  have l: "latest_rows [ra, rb] = [ra, rb]"
    using assms(4,5) by (simp add: latest_rows_def plain_row_def)
  have 1: "add_row (Some []) ra = Some [(wallet, a)]"
    by (simp add: add_row_def assms(2) split_addr_wallet [OF assms(1)] a(1))
  have 2: "add_row (Some [(wallet, a)]) rb = Some [(wallet, b)]"
    by (simp add: add_row_def assms(3) split_addr_wallet [OF assms(1)] b(1))
  show ?thesis
    by (simp add: per_wallet_snapshots_def l 1 2 render_agg_def b(2) a(2))
qed

lemma parse_text_values:
  "parse_hashrate_to_hs (PStr ''1e12'') = Fin (10 ^ 12)"
  "parse_hashrate_to_hs (PStr ''2T'') = Fin (2 * 10 ^ 12)"
  by code_simp+

lemma render_three_tera: "render_sum (Fin (3 * 10 ^ 12)) = PStr ''3.00T''"
  by code_simp

text \<open>Claim C6. When the store holds two rows whose addresses are \<open>wallet.a\<close> and
  \<open>wallet.b\<close> (the wallet without a dot) and whose 1-minute hashrates parse to \<open>1e12\<close>
  and \<open>2e12\<close>, the other cells being numbers or \<open>NULL\<close>, the per-wallet reconciliation
  returns one entry, for that wallet, and its rendered 1-minute hashrate is \<open>3.00T\<close>, in
  whichever order the two rows come.\<close>

theorem sub_accounts_are_summed:
  assumes "CHR ''.'' \<notin> set wallet"
    and "us_address ra = wallet @ ''.a''" and "us_address rb = wallet @ ''.b''"
    and "plain_row ra" and "plain_row rb"
    and "parse_hashrate_to_hs (us_hashrate1m ra) = Fin (10 ^ 12)"
    and "parse_hashrate_to_hs (us_hashrate1m rb) = Fin (2 * 10 ^ 12)"
  shows "map_option (map (\<lambda>(w, s). (w, sn_hashrate1m s))) (per_wallet_snapshots [ra, rb])
           = Some [(wallet, PStr ''3.00T'')]
       \<and> map_option (map (\<lambda>(w, s). (w, sn_hashrate1m s))) (per_wallet_snapshots [rb, ra])
           = Some [(wallet, PStr ''3.00T'')]"
proof -
  have "render_sum (fl_add (Fin (10 ^ 12)) (Fin (2 * 10 ^ 12))) = PStr ''3.00T''"
    using render_three_tera by simp
  moreover have "render_sum (fl_add (Fin (2 * 10 ^ 12)) (Fin (10 ^ 12))) = PStr ''3.00T''"
    using render_three_tera by simp
  ultimately show ?thesis
    using two_rows_sum [of wallet ra "''a''" rb "''b''"] two_rows_sum [of wallet rb "''b''" ra "''a''"]
      assms
    by simp
qed

theorem sub_accounts_are_summed_witness:
  "map_option (map (\<lambda>(w, s). (w, sn_hashrate1m s)))
     (per_wallet_snapshots
        [\<lparr>us_address = ''1WALLET1.a'', us_ts = PInt 100, us_hashrate1m = PStr ''1e12'',
          us_hashrate5m = PNone, us_hashrate1hr = PNone, us_lastshare = PInt 90, us_workers = PInt 1,
          us_shares = PInt 5, us_bestshare = PFloat (Fin 7)\<rparr>,
         \<lparr>us_address = ''1WALLET1.b'', us_ts = PInt 101, us_hashrate1m = PStr ''2T'',
          us_hashrate5m = PNone, us_hashrate1hr = PNone, us_lastshare = PNone, us_workers = PInt 2,
          us_shares = PNone, us_bestshare = PNone\<rparr>])
     = Some [(''1WALLET1'', PStr ''3.00T'')]"
  using sub_accounts_are_summed [of "''1WALLET1''"
        "\<lparr>us_address = ''1WALLET1.a'', us_ts = PInt 100, us_hashrate1m = PStr ''1e12'',
          us_hashrate5m = PNone, us_hashrate1hr = PNone, us_lastshare = PInt 90, us_workers = PInt 1,
          us_shares = PInt 5, us_bestshare = PFloat (Fin 7)\<rparr>"
        "\<lparr>us_address = ''1WALLET1.b'', us_ts = PInt 101, us_hashrate1m = PStr ''2T'',
          us_hashrate5m = PNone, us_hashrate1hr = PNone, us_lastshare = PNone, us_workers = PInt 2,
          us_shares = PNone, us_bestshare = PNone\<rparr>"]
    parse_text_values
  by (simp add: plain_row_def number_cell_def)

subsection \<open>Share status\<close>

lemma sublist_dropWhile:
  "sublist sub xs \<Longrightarrow> sub \<noteq> [] \<Longrightarrow> \<not> P (hd sub) \<Longrightarrow> sublist sub (dropWhile P xs)"
proof (induction xs)
  case Nil
  then show ?case by simp
next
  case (Cons x xs)
  show ?case
  proof (cases "P x")
    case True
    have "\<not> prefix sub (x # xs)"
      using Cons.prems(2,3) True by (cases sub) auto
    then have "sublist sub xs"
      using Cons.prems(1) by (simp add: sublist_Cons_right)
    then show ?thesis using Cons.IH Cons.prems True by simp
  next
    case False
    then show ?thesis using Cons.prems(1) by simp
  qed
qed

lemma sublist_strip_chars:
  assumes "sub \<noteq> []" and "\<not> P (hd sub)" and "\<not> P (last sub)"
  shows "sublist sub (strip_chars P xs) = sublist sub xs"
proof
  assume "sublist sub (strip_chars P xs)"
  then have "sublist (rev sub) (dropWhile P (rev (dropWhile P xs)))"
    unfolding strip_chars_def by (metis sublist_rev rev_rev_ident)
  moreover have "suffix (dropWhile P (rev (dropWhile P xs))) (rev (dropWhile P xs))"
    by (rule suffix_dropWhile)
  ultimately have "sublist (rev sub) (rev (dropWhile P xs))"
    by (meson suffix_imp_sublist sublist_order.order_trans)
  then have "sublist sub (dropWhile P xs)" by (simp only: sublist_rev)
  moreover have "suffix (dropWhile P xs) xs" by (rule suffix_dropWhile)
  ultimately show "sublist sub xs"
    by (meson suffix_imp_sublist sublist_order.order_trans)
next
  assume "sublist sub xs"
  then have "sublist sub (dropWhile P xs)"
    using assms(1,2) by (rule sublist_dropWhile)
  then have "sublist (rev sub) (rev (dropWhile P xs))" by (simp only: sublist_rev)
  then have "sublist (rev sub) (dropWhile P (rev (dropWhile P xs)))"
    using assms(1,3) by (intro sublist_dropWhile) (simp_all add: hd_rev)
  then have "sublist (rev (rev sub)) (rev (dropWhile P (rev (dropWhile P xs))))"
    by (simp only: sublist_rev)
  then show "sublist sub (strip_chars P xs)"
    by (simp add: strip_chars_def)
qed

lemma contains_py_strip:
  "sub \<noteq> [] \<Longrightarrow> \<not> isspace (hd sub) \<Longrightarrow> \<not> isspace (last sub)
   \<Longrightarrow> contains sub (py_strip s) = contains sub s"
  unfolding contains_sublist py_strip_def by (rule sublist_strip_chars)

lemma accepted_in_stripped:
  "contains ''accepted'' (py_strip s) = contains ''accepted'' s"
  "contains ''Accepted'' (py_strip s) = contains ''Accepted'' s"
  by (rule contains_py_strip; simp add: isspace_def)+

lemma share_examples:
  "map_option sh_status (parse_share_line ck0 ''Share ACCEPTED from 1WALLET1.rig1 at diff 1000'')
     = Some ''rejected''"
  "map_option sh_status (parse_share_line ck0 ''Share rejected from 1WALLET1.accepted diff 5'')
     = Some ''accepted''"
  "parse_share_line ck0 ''  Rejected share from 1WALLET1 diff 5/2 xx ''
     = Some \<lparr>sh_ts = 1000, sh_status = ''rejected'', sh_address = ''1WALLET1'', sh_worker = None,
              sh_rawdiff = Some ''5/2'', sh_scaled = Some (Fin (5 / 2)), sh_ip = None\<rparr>"
  by code_simp+

text \<open>Claim C10. For every line that one of the two share dialects matches, the status of
  the event is \<open>accepted\<close> exactly when \<open>accepted\<close> or \<open>Accepted\<close> occurs somewhere in
  the line, and \<open>rejected\<close> otherwise.\<close>

theorem share_status_by_substring:
  assumes "parse_share_line ck line = Some ev"
  shows "(sh_status ev = ''accepted'') = (contains ''accepted'' line \<or> contains ''Accepted'' line)
       \<and> (sh_status ev \<noteq> ''accepted'' \<longrightarrow> sh_status ev = ''rejected'')"
proof -
  have "sh_status ev = (if contains ''Accepted'' (py_strip line) \<or> contains ''accepted'' (py_strip line)
                        then ''accepted'' else ''rejected'')"
    using assms by (auto simp: parse_share_line_def Let_def split: option.splits)
  then show ?thesis
    unfolding accepted_in_stripped by (cases "contains ''accepted'' line \<or> contains ''Accepted'' line") auto
qed

text \<open>The captured status does not decide: a line whose status token is \<open>ACCEPTED\<close> is
  rejected, and a rejected share of a worker called \<open>accepted\<close> is accepted.\<close>

theorem share_status_by_substring_witness:
  "sh_status \<lparr>sh_ts = 1000, sh_status = ''rejected'', sh_address = ''1WALLET1'', sh_worker = None,
              sh_rawdiff = Some ''5/2'', sh_scaled = Some (Fin (5 / 2)), sh_ip = None\<rparr> \<noteq> ''accepted''
   \<and> \<not> contains ''accepted'' ''  Rejected share from 1WALLET1 diff 5/2 xx ''
   \<and> \<not> contains ''Accepted'' ''  Rejected share from 1WALLET1 diff 5/2 xx ''
   \<and> map_option sh_status (parse_share_line ck0 ''Share ACCEPTED from 1WALLET1.rig1 at diff 1000'')
       = Some ''rejected''
   \<and> map_option sh_status (parse_share_line ck0 ''Share rejected from 1WALLET1.accepted diff 5'')
       = Some ''accepted''"
  using share_status_by_substring [OF share_examples(3)] share_examples(1,2)
  by simp

end
